theory Spec2Isabelle
  imports Main "HOL-Library.AList" "HOL-Library.Multiset"
begin

section \<open>Data model of main.py\<close>

text \<open>
  Objects of class \<open>DataGrid\<close> live in a heap. A reference is the position of the object
  in the heap, and allocation appends to it, so every reference that allocation hands out
  is in range. Python \<open>int\<close> is \<open>int\<close>; a \<open>dict\<close> keyed by coordinates is an association
  list in insertion order, written with \<open>AList.update\<close> (an existing key keeps its place, a
  new key goes to the end) and read with \<open>map_of\<close>.
\<close>

type_synonym ref = nat
type_synonym coord = "int \<times> int"

text \<open>\<open>CellStyle\<close>: the border is the module constant \<open>BORDER\<close>; the fill is a colour or \<open>None\<close>.\<close>

record CellStyle =
  fill :: "string option"

record DataGrid =
  start_row :: int
  start_col :: int
  parent :: "ref option"
  children :: "ref list"
  style :: CellStyle
  cells :: "(coord \<times> string) list"
  connection_path :: "(coord \<times> string) list"

type_synonym heap = "DataGrid list"

text \<open>Python's \<open>range(a, b)\<close> on integers.\<close>

definition range_py :: "int \<Rightarrow> int \<Rightarrow> int list" where
  "range_py a b = [a..b - 1]"

text \<open>The properties \<open>end_row\<close> (two rows) and \<open>end_col\<close> (three columns).\<close>

definition end_row :: "DataGrid \<Rightarrow> int" where
  "end_row g = start_row g + 1"

definition end_col :: "DataGrid \<Rightarrow> int" where
  "end_col g = start_col g + 2"

subsection \<open>Cell labels\<close>

text \<open>Python's decimal rendering of an integer, as the f-string \<open>f"{r}-{c}"\<close> uses it.\<close>

definition digit_char :: "nat \<Rightarrow> char" where
  "digit_char d = ''0123456789'' ! d"

fun str_nat :: "nat \<Rightarrow> string" where
  "str_nat n = (if n < 10 then [digit_char n] else str_nat (n div 10) @ [digit_char (n mod 10)])"

declare str_nat.simps [simp del]

definition str_int :: "int \<Rightarrow> string" where
  "str_int i = (if i < 0 then CHR ''-'' # str_nat (nat (- i)) else str_nat (nat i))"

definition cell_label :: "int \<Rightarrow> int \<Rightarrow> string" where
  "cell_label r c = str_int r @ ''-'' @ str_int c"

text \<open>
  \<open>DataGrid._generate_cells\<close>: the dict comprehension stores the pairs in the order of the
  two nested ranges.
\<close>

definition generate_cells :: "DataGrid \<Rightarrow> (coord \<times> string) list" where
  "generate_cells self =
     fold (\<lambda>(k, v). AList.update k v)
       (concat (map (\<lambda>r. map (\<lambda>c. ((r, c), cell_label r c))
                              (range_py (start_col self) (end_col self + 1)))
                    (range_py (start_row self) (end_row self + 1))))
       []"


subsection \<open>Connector path\<close>

text \<open>
  \<open>DataGrid._calculate_connection_path\<close>. The method reads \<open>self.parent\<close> through the heap.
  The three \<open>if\<close> statements run in the source's order on the same dict.
\<close>

definition calculate_connection_path :: "heap \<Rightarrow> DataGrid \<Rightarrow> (coord \<times> string) list" where
  "calculate_connection_path h self =
     (case parent self of
        None \<Rightarrow> []
      | Some p \<Rightarrow>
          let pg = h ! p;
              path0 = [];
              path1 = (if start_col self > end_col pg
                       then fold (\<lambda>col. AList.update (start_row pg, col) ''horizontal'')
                              (range_py (end_col pg) (start_col self + 1)) path0
                       else path0);
              path2 = (if start_row self > end_row pg
                       then fold (\<lambda>row. AList.update (row, start_col self - 1) ''vertical'')
                              (range_py (end_row pg) (start_row self + 1)) path1
                       else path1);
              path3 = (if start_row self > end_row pg
                       then (let last_h_coord = (start_row self, start_col self - 1)
                             in if map_of path2 last_h_coord \<noteq> None
                                then AList.update last_h_coord ''corner'' path2
                                else path2)
                       else path2)
          in path3)"

text \<open>
  The dataclass constructor with \<open>__post_init__\<close>: the fields are set, \<open>children\<close> is a
  fresh empty list, then \<open>_cells\<close> and \<open>connection_path\<close> are computed once and stored.
\<close>

definition DataGrid_init :: "heap \<Rightarrow> int \<Rightarrow> int \<Rightarrow> ref option \<Rightarrow> CellStyle \<Rightarrow> DataGrid" where
  "DataGrid_init h sr sc par sty =
     (let self0 = \<lparr>start_row = sr, start_col = sc, parent = par, children = [],
                   style = sty, cells = [], connection_path = []\<rparr>;
          self1 = self0\<lparr>cells := generate_cells self0\<rparr>;
          self2 = self1\<lparr>connection_path := calculate_connection_path h self1\<rparr>
      in self2)"

text \<open>Allocation of a constructed object: the new heap and the new reference.\<close>

definition new_DataGrid :: "heap \<Rightarrow> int \<Rightarrow> int \<Rightarrow> ref option \<Rightarrow> CellStyle \<Rightarrow> heap \<times> ref" where
  "new_DataGrid h sr sc par sty = (h @ [DataGrid_init h sr sc par sty], length h)"

subsection \<open>GridFactory\<close>

text \<open>
  \<open>GridFactory.create_child\<close>: the origin by orientation, the construction of the child,
  and \<open>parent.children.append(child)\<close>, which mutates the parent object in the heap.
\<close>

definition create_child :: "heap \<Rightarrow> ref \<Rightarrow> bool \<Rightarrow> heap \<times> ref" where
  "create_child h p horizontal =
     (let pg = h ! p;
          (sr, sc) = (if horizontal
                      then (start_row pg, end_col pg + 4)
                      else (end_row pg + 3, end_col pg + 4));
          (h1, child) = new_DataGrid h sr sc (Some p) \<lparr>fill = Some ''0000FF''\<rparr>;
          h2 = h1[p := (h1 ! p)\<lparr>children := children (h1 ! p) @ [child]\<rparr>]
      in (h2, child))"

text \<open>\<open>GridFactory.create_sample_grids\<close>, run on a heap; it returns the root.\<close>

definition create_sample_grids :: "heap \<Rightarrow> heap \<times> ref" where
  "create_sample_grids h =
     (let (h1, root) = new_DataGrid h 1 1 None \<lparr>fill = Some ''FFA500''\<rparr>;
          (h2, child1) = create_child h1 root True;
          (h3, child2) = create_child h2 root False;
          (h4, g1) = create_child h3 child1 True;
          (h5, g2) = create_child h4 child1 False
      in (h5, root))"

subsection \<open>Rectangles\<close>

text \<open>
  The rectangle of a grid is the rows \<open>start_row..end_row\<close> and the columns
  \<open>start_col..end_col\<close>. Two grids overlap when their rectangles share a cell. The source
  has no such test; the predicate only states what the claims about overlap mean.
\<close>

definition rect_overlap :: "DataGrid \<Rightarrow> DataGrid \<Rightarrow> bool" where
  "rect_overlap a b \<longleftrightarrow>
     start_row a \<le> end_row b \<and> start_row b \<le> end_row a \<and>
     start_col a \<le> end_col b \<and> start_col b \<le> end_col a"

section \<open>Data model of main1.py\<close>

text \<open>
  The second version has its own class \<open>DataGrid\<close>: \<open>children\<close> defaults to \<open>None\<close>, the
  rectangle is the property \<open>range\<close>, and \<open>connection_path\<close> is a property that builds a
  list of coordinates at each read. Its names carry the suffix 1 here.
\<close>

record DataGrid1 =
  start_row1 :: int
  start_col1 :: int
  parent1 :: "ref option"
  children1 :: "ref list option"
  style1 :: CellStyle

type_synonym heap1 = "DataGrid1 list"

definition range1 :: "DataGrid1 \<Rightarrow> (int \<times> int) \<times> (int \<times> int)" where
  "range1 self = ((start_row1 self, start_row1 self + 1), (start_col1 self, start_col1 self + 2))"

text \<open>\<open>DataGrid.connection_path\<close> of main1.py; each loop appends to the list.\<close>

definition connection_path1 :: "heap1 \<Rightarrow> DataGrid1 \<Rightarrow> coord list" where
  "connection_path1 h self =
     (case parent1 self of
        None \<Rightarrow> []
      | Some p \<Rightarrow>
          let ((p_row1, p_row2), (p_col1, p_col2)) = range1 (h ! p);
              ((c_row1, c_row2), (c_col1, c_col2)) = range1 self;
              path0 = [];
              path1 = (if p_col2 < c_col1
                       then fold (\<lambda>col path. path @ [(p_row1, col)])
                              (range_py (p_col2 + 1) (c_col1 + 1)) path0
                       else path0);
              path2 = (if p_row2 < c_row1
                       then fold (\<lambda>row path. path @ [(row, c_col1 - 1)])
                              (range_py p_row2 c_row1) path1
                       else path1)
          in path2)"

text \<open>
  \<open>GridGenerator.create_sample_grids\<close> of main1.py: four objects are constructed, then the
  two assignments to \<open>children\<close> build the tree.
\<close>

definition create_sample_grids1 :: "heap1 \<Rightarrow> heap1 \<times> ref" where
  "create_sample_grids1 h =
     (let root = length h;
          h1 = h @ [\<lparr>start_row1 = 1, start_col1 = 1, parent1 = None, children1 = None,
                     style1 = \<lparr>fill = Some ''FFA500''\<rparr>\<rparr>];
          child1 = length h1;
          h2 = h1 @ [\<lparr>start_row1 = 1, start_col1 = 7, parent1 = Some root, children1 = None,
                      style1 = \<lparr>fill = Some ''FFA500''\<rparr>\<rparr>];
          child2 = length h2;
          h3 = h2 @ [\<lparr>start_row1 = 5, start_col1 = 7, parent1 = Some root, children1 = None,
                      style1 = \<lparr>fill = Some ''0000FF''\<rparr>\<rparr>];
          grandchild1 = length h3;
          h4 = h3 @ [\<lparr>start_row1 = 1, start_col1 = 13, parent1 = Some child1, children1 = None,
                      style1 = \<lparr>fill = Some ''0000FF''\<rparr>\<rparr>];
          h5 = h4[root := (h4 ! root)\<lparr>children1 := Some [child1, child2]\<rparr>];
          h6 = h5[child1 := (h5 ! child1)\<lparr>children1 := Some [grandchild1]\<rparr>]
      in (h6, root))"

section \<open>Traversal\<close>

text \<open>
  The loop of \<open>generate\<close> in both files: while the stack is not empty, pop its last element,
  visit it, and extend the stack with the reversed children. The top of the stack is the
  end of the list, as in Python. The visit (\<open>_write_grid\<close> in main.py, \<open>grids.append\<close> in
  main1.py) is recorded as the sequence of visited references. The children of a reference
  are read through \<open>kids\<close>, which is the only difference between the two files. On a cyclic
  structure the loop does not end; its value is then \<open>None\<close>.
\<close>

partial_function (option) stack_walk :: "(ref \<Rightarrow> ref list) \<Rightarrow> ref list \<Rightarrow> ref list \<Rightarrow> ref list option" where
  "stack_walk kids stack visited =
     (if stack = [] then Some visited
      else let current = last stack;
               stack1 = butlast stack;
               visited1 = visited @ [current];
               stack2 = stack1 @ rev (kids current)
           in stack_walk kids stack2 visited1)"

declare stack_walk.simps [code]

text \<open>main.py: \<open>stack = [self.root]\<close>, children read as \<open>current.children\<close>.\<close>

definition generate_order :: "heap \<Rightarrow> ref \<Rightarrow> ref list option" where
  "generate_order h root = stack_walk (\<lambda>r. children (h ! r)) [root] []"

text \<open>main1.py: \<open>stack = [self.grid_root]\<close>, children read as \<open>current.children or []\<close>.\<close>

definition children_or_empty :: "DataGrid1 \<Rightarrow> ref list" where
  "children_or_empty g = (case children1 g of None \<Rightarrow> [] | Some cs \<Rightarrow> cs)"

definition generate_order1 :: "heap1 \<Rightarrow> ref \<Rightarrow> ref list option" where
  "generate_order1 h root = stack_walk (\<lambda>r. children_or_empty (h ! r)) [root] []"

subsection \<open>Recursive pre-order, as the specification words it\<close>

text \<open>
  A tree of references, and the pre-order of the specification: the root first, then each
  child's subtree in insertion order. \<open>nodes_mset\<close> counts every node of the tree once.
  \<open>tree_at\<close> and \<open>tree_at1\<close> say that the objects of a heap form the tree \<open>t\<close>: every node is an
  object of the heap whose children are the roots of the subtrees, in order.
\<close>

datatype rtree = Node ref "rtree list"

fun root_of :: "rtree \<Rightarrow> ref" where
  "root_of (Node r ts) = r"

fun preOrder :: "rtree \<Rightarrow> ref list" where
  "preOrder (Node r ts) = r # concat (map preOrder ts)"

fun nodes_mset :: "rtree \<Rightarrow> ref multiset" where
  "nodes_mset (Node r ts) = add_mset r (sum_list (map nodes_mset ts))"

fun shape :: "(ref \<Rightarrow> ref list) \<Rightarrow> rtree \<Rightarrow> bool" where
  "shape kids (Node r ts) = (kids r = map root_of ts \<and> list_all (shape kids) ts)"

fun tree_at :: "heap \<Rightarrow> rtree \<Rightarrow> bool" where
  "tree_at h (Node r ts) =
     (r < length h \<and> children (h ! r) = map root_of ts \<and> list_all (tree_at h) ts)"

fun tree_at1 :: "heap1 \<Rightarrow> rtree \<Rightarrow> bool" where
  "tree_at1 h (Node r ts) =
     (r < length h \<and> children_or_empty (h ! r) = map root_of ts \<and> list_all (tree_at1 h) ts)"

section \<open>Properties of the connector path\<close>

lemma set_range_py: "set (range_py a b) = {a..b - 1}"
  by (simp add: range_py_def)

lemma map_of_fold_update:
  "map_of (fold (\<lambda>x. AList.update (f x) v) xs al) k =
     (if k \<in> f ` set xs then Some v else map_of al k)"
  by (induction xs arbitrary: al) (auto simp: update_conv')

lemma distinct_fold_update:
  "distinct (map fst al) \<Longrightarrow> distinct (map fst (fold (\<lambda>x. AList.update (f x) v) xs al))"
  by (induction xs arbitrary: al) (simp_all add: distinct_update)

lemma connection_path_lookup:
  assumes "parent self = Some p"
  shows "map_of (calculate_connection_path h self) (r, c) =
     (if start_col self > end_col (h ! p) \<and> r = start_row (h ! p)
          \<and> end_col (h ! p) \<le> c \<and> c \<le> start_col self
      then Some ''horizontal''
      else if start_row self > end_row (h ! p) \<and> c = start_col self - 1
          \<and> end_row (h ! p) \<le> r \<and> r \<le> start_row self
      then Some (if r = start_row self then ''corner'' else ''vertical'')
      else None)"
  using assms
  by (auto simp: calculate_connection_path_def Let_def map_of_fold_update update_conv'
        set_range_py end_row_def image_iff)

lemma connection_path_distinct:
  "distinct (map fst (calculate_connection_path h self))"
  by (auto simp: calculate_connection_path_def Let_def distinct_fold_update distinct_update
        split: option.splits)

lemma count_value_distinct:
  "distinct (map fst al) \<Longrightarrow>
     length (filter (\<lambda>kv. snd kv = v) al) = card {k. map_of al k = Some v}"
proof (induction al)
  case Nil
  then show ?case by simp
next
  case (Cons a al)
  obtain k w where a: "a = (k, w)" by (cases a)
  from Cons.prems a have notin: "k \<notin> fst ` set al" and d: "distinct (map fst al)" by auto
  have fin: "finite {k'. map_of al k' = Some v}"
    by (rule finite_subset [of _ "dom (map_of al)"]) (auto simp: finite_dom_map_of)
  have none: "map_of al k = None" using notin by (simp add: map_of_eq_None_iff)
  show ?case
  proof (cases "w = v")
    case True
    have "{k'. map_of (a # al) k' = Some v} = insert k {k'. map_of al k' = Some v}"
      using a True by auto
    moreover have "k \<notin> {k'. map_of al k' = Some v}" using none by simp
    ultimately show ?thesis using Cons.IH [OF d] fin a True by simp
  next
    case False
    have "{k'. map_of (a # al) k' = Some v} = {k'. map_of al k' = Some v}"
      using a False none by auto
    then show ?thesis using Cons.IH [OF d] a False by simp
  qed
qed

lemma corner_keys:
  assumes "parent self = Some p"
  shows "{k. map_of (calculate_connection_path h self) k = Some ''corner''} =
           (if start_row self > end_row (h ! p) then {(start_row self, start_col self - 1)} else {})"
proof -
  have "\<And>r c. (map_of (calculate_connection_path h self) (r, c) = Some ''corner'') =
          (start_row self > end_row (h ! p) \<and> r = start_row self \<and> c = start_col self - 1)"
    by (auto simp: connection_path_lookup [OF assms] end_row_def)
  then show ?thesis by auto
qed

text \<open>
  Claim C1. For a node with a parent, the connector path holds exactly these cells: when
  the child starts right of the parent's last column, the cells of the parent's first row
  in the columns from the parent's last column to the child's first column, tagged
  horizontal; when the child starts below the parent's last row, the cells of the column
  left of the child in the rows from the parent's last row to the child's first row,
  tagged vertical, the last of them tagged corner; and nothing else. Every coordinate
  occurs once.
\<close>

theorem connection_path_cells:
  assumes "parent self = Some p"
  shows "map_of (calculate_connection_path h self) (r, c) =
           (if start_col self > end_col (h ! p) \<and> r = start_row (h ! p)
                \<and> end_col (h ! p) \<le> c \<and> c \<le> start_col self
            then Some ''horizontal''
            else if start_row self > end_row (h ! p) \<and> c = start_col self - 1
                \<and> end_row (h ! p) \<le> r \<and> r \<le> start_row self
            then Some (if r = start_row self then ''corner'' else ''vertical'')
            else None)
         \<and> distinct (map fst (calculate_connection_path h self))"
  using connection_path_lookup [OF assms] connection_path_distinct by blast

theorem connection_path_cells_witness:
  "parent (DataGrid_init [DataGrid_init [] 1 1 None \<lparr>fill = None\<rparr>] 5 7 (Some 0) \<lparr>fill = None\<rparr>) = Some 0
   \<and> map_of (calculate_connection_path [DataGrid_init [] 1 1 None \<lparr>fill = None\<rparr>]
        (DataGrid_init [DataGrid_init [] 1 1 None \<lparr>fill = None\<rparr>] 5 7 (Some 0) \<lparr>fill = None\<rparr>)) (5, 6)
       = Some ''corner''
   \<and> map_of (calculate_connection_path [DataGrid_init [] 1 1 None \<lparr>fill = None\<rparr>]
        (DataGrid_init [DataGrid_init [] 1 1 None \<lparr>fill = None\<rparr>] 5 7 (Some 0) \<lparr>fill = None\<rparr>)) (1, 3)
       = Some ''horizontal''
   \<and> map_of (calculate_connection_path [DataGrid_init [] 1 1 None \<lparr>fill = None\<rparr>]
        (DataGrid_init [DataGrid_init [] 1 1 None \<lparr>fill = None\<rparr>] 5 7 (Some 0) \<lparr>fill = None\<rparr>)) (1, 8)
       = None"
  using connection_path_cells [of "DataGrid_init [DataGrid_init [] 1 1 None \<lparr>fill = None\<rparr>] 5 7 (Some 0) \<lparr>fill = None\<rparr>" 0
          "[DataGrid_init [] 1 1 None \<lparr>fill = None\<rparr>]" 5 6]
        connection_path_cells [of "DataGrid_init [DataGrid_init [] 1 1 None \<lparr>fill = None\<rparr>] 5 7 (Some 0) \<lparr>fill = None\<rparr>" 0
          "[DataGrid_init [] 1 1 None \<lparr>fill = None\<rparr>]" 1 3]
        connection_path_cells [of "DataGrid_init [DataGrid_init [] 1 1 None \<lparr>fill = None\<rparr>] 5 7 (Some 0) \<lparr>fill = None\<rparr>" 0
          "[DataGrid_init [] 1 1 None \<lparr>fill = None\<rparr>]" 1 8]
  by (simp add: DataGrid_init_def Let_def end_row_def end_col_def)

text \<open>
  Claim C2, as stated, fails: a child straight below its parent has a vertical run and no
  horizontal run, and its path still ends in a corner cell. Parent at (1, 2), child at
  (5, 2).
\<close>

theorem pure_vertical_has_corner:
  "\<not> start_col (DataGrid_init [DataGrid_init [] 1 2 None \<lparr>fill = None\<rparr>] 5 2 (Some 0) \<lparr>fill = None\<rparr>)
        > end_col (DataGrid_init [] 1 2 None \<lparr>fill = None\<rparr>)
   \<and> start_row (DataGrid_init [DataGrid_init [] 1 2 None \<lparr>fill = None\<rparr>] 5 2 (Some 0) \<lparr>fill = None\<rparr>)
        > end_row (DataGrid_init [] 1 2 None \<lparr>fill = None\<rparr>)
   \<and> connection_path (DataGrid_init [DataGrid_init [] 1 2 None \<lparr>fill = None\<rparr>] 5 2 (Some 0) \<lparr>fill = None\<rparr>)
       = [((2, 1), ''vertical''), ((3, 1), ''vertical''), ((4, 1), ''vertical''), ((5, 1), ''corner'')]"
  by (simp add: DataGrid_init_def Let_def end_row_def end_col_def calculate_connection_path_def range_py_def)

text \<open>
  Claim C2, amended. The number of corner cells of a connector path is one when a vertical
  run was emitted (the child starts below the parent's last row) and zero otherwise,
  whether or not a horizontal run was emitted: a horizontal-only connector has no corner,
  a vertical-only connector has one.
\<close>

theorem corner_count_by_vertical:
  assumes "parent self = Some p"
  shows "length (filter (\<lambda>kv. snd kv = ''corner'') (calculate_connection_path h self)) =
           (if start_row self > end_row (h ! p) then 1 else 0)"
  by (simp add: count_value_distinct [OF connection_path_distinct] corner_keys [OF assms])

theorem corner_count_by_vertical_witness:
  "parent (DataGrid_init [DataGrid_init [] 1 1 None \<lparr>fill = None\<rparr>] 1 7 (Some 0) \<lparr>fill = None\<rparr>) = Some 0
   \<and> length (filter (\<lambda>kv. snd kv = ''corner'')
        (calculate_connection_path [DataGrid_init [] 1 1 None \<lparr>fill = None\<rparr>]
          (DataGrid_init [DataGrid_init [] 1 1 None \<lparr>fill = None\<rparr>] 1 7 (Some 0) \<lparr>fill = None\<rparr>))) = 0
   \<and> parent (DataGrid_init [DataGrid_init [] 1 1 None \<lparr>fill = None\<rparr>] 5 7 (Some 0) \<lparr>fill = None\<rparr>) = Some 0
   \<and> length (filter (\<lambda>kv. snd kv = ''corner'')
        (calculate_connection_path [DataGrid_init [] 1 1 None \<lparr>fill = None\<rparr>]
          (DataGrid_init [DataGrid_init [] 1 1 None \<lparr>fill = None\<rparr>] 5 7 (Some 0) \<lparr>fill = None\<rparr>))) = 1"
  using corner_count_by_vertical [of "DataGrid_init [DataGrid_init [] 1 1 None \<lparr>fill = None\<rparr>] 1 7 (Some 0) \<lparr>fill = None\<rparr>" 0
          "[DataGrid_init [] 1 1 None \<lparr>fill = None\<rparr>]"]
        corner_count_by_vertical [of "DataGrid_init [DataGrid_init [] 1 1 None \<lparr>fill = None\<rparr>] 5 7 (Some 0) \<lparr>fill = None\<rparr>" 0
          "[DataGrid_init [] 1 1 None \<lparr>fill = None\<rparr>]"]
  by (simp add: DataGrid_init_def Let_def end_row_def end_col_def)

text \<open>
  Claim C3. When a vertical run is emitted (the child starts below the parent's last row),
  the cell in the child's first row and the column left of the child is in the connector
  path and its final tag is corner.
\<close>

theorem corner_at_child_row:
  assumes "parent self = Some p" and "start_row self > end_row (h ! p)"
  shows "map_of (calculate_connection_path h self) (start_row self, start_col self - 1)
           = Some ''corner''"
  using assms(2) by (simp add: connection_path_lookup [OF assms(1)] end_row_def)

theorem corner_at_child_row_witness:
  "parent (DataGrid_init [DataGrid_init [] 1 2 None \<lparr>fill = None\<rparr>] 5 2 (Some 0) \<lparr>fill = None\<rparr>) = Some 0
   \<and> start_row (DataGrid_init [DataGrid_init [] 1 2 None \<lparr>fill = None\<rparr>] 5 2 (Some 0) \<lparr>fill = None\<rparr>)
        > end_row ([DataGrid_init [] 1 2 None \<lparr>fill = None\<rparr>] ! 0)
   \<and> map_of (calculate_connection_path [DataGrid_init [] 1 2 None \<lparr>fill = None\<rparr>]
        (DataGrid_init [DataGrid_init [] 1 2 None \<lparr>fill = None\<rparr>] 5 2 (Some 0) \<lparr>fill = None\<rparr>)) (5, 1)
       = Some ''corner''"
proof -
  let ?h = "[DataGrid_init [] 1 2 None \<lparr>fill = None\<rparr>]"
  let ?c = "DataGrid_init ?h 5 2 (Some 0) \<lparr>fill = None\<rparr>"
  have p: "parent ?c = Some 0" by (simp add: DataGrid_init_def Let_def)
  have v: "start_row ?c > end_row (?h ! 0)" by (simp add: DataGrid_init_def Let_def end_row_def)
  have sr: "start_row ?c = 5" and sc: "start_col ?c = 2" by (simp_all add: DataGrid_init_def Let_def)
  from corner_at_child_row [OF p v] sr sc p v show ?thesis by simp
qed

text \<open>
  Claim C7, as stated, fails: an empty path is not the same as a child directly adjacent to
  its parent with no gap. A child at (3, 4) of a parent at (1, 1) starts in the column and
  in the row right after the parent's last ones, and its path has four cells; a child at
  (1, 4) touches the parent on the right and its path has two cells. A child at (1, 3) of
  a parent at (1, 5) has an empty path, and it overlaps the parent.
\<close>

theorem adjacent_child_has_path:
  "start_col (DataGrid_init [DataGrid_init [] 1 1 None \<lparr>fill = None\<rparr>] 3 4 (Some 0) \<lparr>fill = None\<rparr>)
     = end_col (DataGrid_init [] 1 1 None \<lparr>fill = None\<rparr>) + 1
   \<and> start_row (DataGrid_init [DataGrid_init [] 1 1 None \<lparr>fill = None\<rparr>] 3 4 (Some 0) \<lparr>fill = None\<rparr>)
     = end_row (DataGrid_init [] 1 1 None \<lparr>fill = None\<rparr>) + 1
   \<and> connection_path (DataGrid_init [DataGrid_init [] 1 1 None \<lparr>fill = None\<rparr>] 3 4 (Some 0) \<lparr>fill = None\<rparr>)
     = [((1, 3), ''horizontal''), ((1, 4), ''horizontal''), ((2, 3), ''vertical''), ((3, 3), ''corner'')]
   \<and> start_col (DataGrid_init [DataGrid_init [] 1 1 None \<lparr>fill = None\<rparr>] 1 4 (Some 0) \<lparr>fill = None\<rparr>)
     = end_col (DataGrid_init [] 1 1 None \<lparr>fill = None\<rparr>) + 1
   \<and> connection_path (DataGrid_init [DataGrid_init [] 1 1 None \<lparr>fill = None\<rparr>] 1 4 (Some 0) \<lparr>fill = None\<rparr>)
     = [((1, 3), ''horizontal''), ((1, 4), ''horizontal'')]
   \<and> connection_path (DataGrid_init [DataGrid_init [] 1 5 None \<lparr>fill = None\<rparr>] 1 3 (Some 0) \<lparr>fill = None\<rparr>)
     = []
   \<and> rect_overlap (DataGrid_init [DataGrid_init [] 1 5 None \<lparr>fill = None\<rparr>] 1 3 (Some 0) \<lparr>fill = None\<rparr>)
        (DataGrid_init [] 1 5 None \<lparr>fill = None\<rparr>)"
  by (simp add: DataGrid_init_def Let_def end_row_def end_col_def calculate_connection_path_def
        range_py_def rect_overlap_def)

text \<open>
  Claim C7, amended. For a node with a parent, the connector path is empty exactly when
  neither the horizontal condition (the child starts right of the parent's last column) nor
  the vertical condition (the child starts below the parent's last row) holds. A child that
  starts in the column right after the parent's last column, or in the row right after the
  parent's last row, has a non-empty path; a child with an empty path that starts at or
  after the parent's first row and first column overlaps the parent's rectangle.
\<close>

theorem path_empty_iff:
  assumes "parent self = Some p"
  shows "(calculate_connection_path h self = [] \<longleftrightarrow>
            \<not> start_col self > end_col (h ! p) \<and> \<not> start_row self > end_row (h ! p))
       \<and> (start_col self = end_col (h ! p) + 1 \<or> start_row self = end_row (h ! p) + 1
            \<longrightarrow> calculate_connection_path h self \<noteq> [])
       \<and> (calculate_connection_path h self = [] \<and> start_row (h ! p) \<le> start_row self
              \<and> start_col (h ! p) \<le> start_col self
            \<longrightarrow> rect_overlap self (h ! p))"
proof -
  have iff: "calculate_connection_path h self = [] \<longleftrightarrow>
            \<not> start_col self > end_col (h ! p) \<and> \<not> start_row self > end_row (h ! p)"
  proof
    assume e: "calculate_connection_path h self = []"
    have "\<And>r c. map_of (calculate_connection_path h self) (r, c) = None" by (simp add: e)
    from this [of "start_row (h ! p)" "end_col (h ! p)"]
         this [of "start_row self" "start_col self - 1"]
    show "\<not> start_col self > end_col (h ! p) \<and> \<not> start_row self > end_row (h ! p)"
      by (auto simp: connection_path_lookup [OF assms] split: if_splits)
  next
    assume "\<not> start_col self > end_col (h ! p) \<and> \<not> start_row self > end_row (h ! p)"
    then show "calculate_connection_path h self = []"
      using assms by (simp add: calculate_connection_path_def)
  qed
  have adj: "start_col self = end_col (h ! p) + 1 \<or> start_row self = end_row (h ! p) + 1
            \<longrightarrow> calculate_connection_path h self \<noteq> []"
    unfolding iff by auto
  have ov: "calculate_connection_path h self = [] \<and> start_row (h ! p) \<le> start_row self
              \<and> start_col (h ! p) \<le> start_col self
            \<longrightarrow> rect_overlap self (h ! p)"
    unfolding iff by (auto simp: rect_overlap_def end_row_def end_col_def)
  from iff adj ov show ?thesis by blast
qed

theorem path_empty_iff_witness:
  "parent (DataGrid_init [DataGrid_init [] 1 5 None \<lparr>fill = None\<rparr>] 1 3 (Some 0) \<lparr>fill = None\<rparr>) = Some 0
   \<and> calculate_connection_path [DataGrid_init [] 1 5 None \<lparr>fill = None\<rparr>]
        (DataGrid_init [DataGrid_init [] 1 5 None \<lparr>fill = None\<rparr>] 1 3 (Some 0) \<lparr>fill = None\<rparr>) = []
   \<and> parent (DataGrid_init [DataGrid_init [] 1 1 None \<lparr>fill = None\<rparr>] 1 7 (Some 0) \<lparr>fill = None\<rparr>) = Some 0
   \<and> calculate_connection_path [DataGrid_init [] 1 1 None \<lparr>fill = None\<rparr>]
        (DataGrid_init [DataGrid_init [] 1 1 None \<lparr>fill = None\<rparr>] 1 7 (Some 0) \<lparr>fill = None\<rparr>) \<noteq> []
   \<and> parent (DataGrid_init [DataGrid_init [] 1 1 None \<lparr>fill = None\<rparr>] 1 4 (Some 0) \<lparr>fill = None\<rparr>) = Some 0
   \<and> start_col (DataGrid_init [DataGrid_init [] 1 1 None \<lparr>fill = None\<rparr>] 1 4 (Some 0) \<lparr>fill = None\<rparr>)
        = end_col ([DataGrid_init [] 1 1 None \<lparr>fill = None\<rparr>] ! 0) + 1
   \<and> calculate_connection_path [DataGrid_init [] 1 1 None \<lparr>fill = None\<rparr>]
        (DataGrid_init [DataGrid_init [] 1 1 None \<lparr>fill = None\<rparr>] 1 4 (Some 0) \<lparr>fill = None\<rparr>) \<noteq> []
   \<and> parent (DataGrid_init [DataGrid_init [] 1 1 None \<lparr>fill = None\<rparr>] 2 2 (Some 0) \<lparr>fill = None\<rparr>) = Some 0
   \<and> calculate_connection_path [DataGrid_init [] 1 1 None \<lparr>fill = None\<rparr>]
        (DataGrid_init [DataGrid_init [] 1 1 None \<lparr>fill = None\<rparr>] 2 2 (Some 0) \<lparr>fill = None\<rparr>) = []
   \<and> rect_overlap (DataGrid_init [DataGrid_init [] 1 1 None \<lparr>fill = None\<rparr>] 2 2 (Some 0) \<lparr>fill = None\<rparr>)
        ([DataGrid_init [] 1 1 None \<lparr>fill = None\<rparr>] ! 0)"
  using path_empty_iff [of "DataGrid_init [DataGrid_init [] 1 5 None \<lparr>fill = None\<rparr>] 1 3 (Some 0) \<lparr>fill = None\<rparr>" 0
          "[DataGrid_init [] 1 5 None \<lparr>fill = None\<rparr>]"]
        path_empty_iff [of "DataGrid_init [DataGrid_init [] 1 1 None \<lparr>fill = None\<rparr>] 1 7 (Some 0) \<lparr>fill = None\<rparr>" 0
          "[DataGrid_init [] 1 1 None \<lparr>fill = None\<rparr>]"]
        path_empty_iff [of "DataGrid_init [DataGrid_init [] 1 1 None \<lparr>fill = None\<rparr>] 1 4 (Some 0) \<lparr>fill = None\<rparr>" 0
          "[DataGrid_init [] 1 1 None \<lparr>fill = None\<rparr>]"]
        path_empty_iff [of "DataGrid_init [DataGrid_init [] 1 1 None \<lparr>fill = None\<rparr>] 2 2 (Some 0) \<lparr>fill = None\<rparr>" 0
          "[DataGrid_init [] 1 1 None \<lparr>fill = None\<rparr>]"]
  by (simp add: DataGrid_init_def Let_def end_row_def end_col_def)

section \<open>Properties of the factory\<close>

lemma create_child_heap:
  assumes "p < length h"
  shows "create_child h p hz =
     (h[p := (h ! p)\<lparr>children := children (h ! p) @ [length h]\<rparr>]
        @ [DataGrid_init h (if hz then start_row (h ! p) else end_row (h ! p) + 3)
             (end_col (h ! p) + 4) (Some p) \<lparr>fill = Some ''0000FF''\<rparr>],
      length h)"
  using assms
  by (simp add: create_child_def new_DataGrid_def Let_def nth_append list_update_append)

lemma DataGrid_init_fields [simp]:
  "start_row (DataGrid_init h sr sc par sty) = sr"
  "start_col (DataGrid_init h sr sc par sty) = sc"
  "parent (DataGrid_init h sr sc par sty) = par"
  "children (DataGrid_init h sr sc par sty) = []"
  "style (DataGrid_init h sr sc par sty) = sty"
  by (simp_all add: DataGrid_init_def Let_def)

lemma connection_path_init:
  "connection_path (DataGrid_init h sr sc par sty) =
     calculate_connection_path h (DataGrid_init h sr sc par sty)"
  by (cases par) (simp_all add: DataGrid_init_def Let_def calculate_connection_path_def)

lemma sample_heap_facts:
  "snd (create_sample_grids []) = 0
   \<and> length (fst (create_sample_grids [])) = 5
   \<and> map start_row (fst (create_sample_grids [])) = [1, 1, 5, 1, 5]
   \<and> map start_col (fst (create_sample_grids [])) = [1, 7, 7, 13, 13]
   \<and> map parent (fst (create_sample_grids [])) = [None, Some 0, Some 0, Some 1, Some 1]
   \<and> map children (fst (create_sample_grids [])) = [1, 2] # [3, 4] # [] # [] # [] # []
   \<and> connection_path (fst (create_sample_grids []) ! 1) =
        [((1, 3), ''horizontal''), ((1, 4), ''horizontal''), ((1, 5), ''horizontal''),
         ((1, 6), ''horizontal''), ((1, 7), ''horizontal'')]
   \<and> connection_path (fst (create_sample_grids []) ! 2) =
        [((1, 3), ''horizontal''), ((1, 4), ''horizontal''), ((1, 5), ''horizontal''),
         ((1, 6), ''horizontal''), ((1, 7), ''horizontal''),
         ((2, 6), ''vertical''), ((3, 6), ''vertical''), ((4, 6), ''vertical''),
         ((5, 6), ''corner'')]"
proof -
  define B :: CellStyle where "B = \<lparr>fill = Some ''0000FF''\<rparr>"
  define R where "R = DataGrid_init [] 1 1 None \<lparr>fill = Some ''FFA500''\<rparr>"
  define C1 where "C1 = DataGrid_init [R] 1 7 (Some 0) B"
  define C2 where "C2 = DataGrid_init [R\<lparr>children := [1]\<rparr>, C1] 5 7 (Some 0) B"
  define G1 where "G1 = DataGrid_init [R\<lparr>children := [1, 2]\<rparr>, C1, C2] 1 13 (Some 1) B"
  define G2 where "G2 = DataGrid_init [R\<lparr>children := [1, 2]\<rparr>, C1\<lparr>children := [3]\<rparr>, C2, G1]
                          5 13 (Some 1) B"
  have R: "start_row R = 1" "start_col R = 1" "parent R = None" "children R = []"
    by (simp_all add: R_def)
  have C1: "start_row C1 = 1" "start_col C1 = 7" "parent C1 = Some 0" "children C1 = []"
    by (simp_all add: C1_def)
  have C2: "start_row C2 = 5" "start_col C2 = 7" "parent C2 = Some 0" "children C2 = []"
    by (simp_all add: C2_def)
  have G1: "start_row G1 = 1" "start_col G1 = 13" "parent G1 = Some 1" "children G1 = []"
    by (simp_all add: G1_def)
  have G2: "start_row G2 = 5" "start_col G2 = 13" "parent G2 = Some 1" "children G2 = []"
    by (simp_all add: G2_def)
  have s0: "new_DataGrid [] 1 1 None \<lparr>fill = Some ''FFA500''\<rparr> = ([R], 0)"
    by (simp add: new_DataGrid_def R_def)
  have s1: "create_child [R] 0 True = ([R\<lparr>children := [1]\<rparr>, C1], 1)"
    by (simp add: create_child_heap R C1_def B_def end_row_def end_col_def)
  have s2: "create_child [R\<lparr>children := [1]\<rparr>, C1] 0 False
              = ([R\<lparr>children := [1, 2]\<rparr>, C1, C2], 2)"
    by (simp add: create_child_heap R C2_def B_def end_row_def end_col_def)
  have s3: "create_child [R\<lparr>children := [1, 2]\<rparr>, C1, C2] 1 True
              = ([R\<lparr>children := [1, 2]\<rparr>, C1\<lparr>children := [3]\<rparr>, C2, G1], 3)"
    by (simp add: create_child_heap C1 G1_def B_def end_row_def end_col_def)
  have s4: "create_child [R\<lparr>children := [1, 2]\<rparr>, C1\<lparr>children := [3]\<rparr>, C2, G1] 1 False
              = ([R\<lparr>children := [1, 2]\<rparr>, C1\<lparr>children := [3, 4]\<rparr>, C2, G1, G2], 4)"
    by (simp add: create_child_heap C1 G2_def B_def end_row_def end_col_def)
  have sample: "create_sample_grids []
              = ([R\<lparr>children := [1, 2]\<rparr>, C1\<lparr>children := [3, 4]\<rparr>, C2, G1, G2], 0)"
    by (simp only: create_sample_grids_def Let_def s0 s1 s2 s3 s4 prod.case)
  have p1: "connection_path C1 =
        [((1, 3), ''horizontal''), ((1, 4), ''horizontal''), ((1, 5), ''horizontal''),
         ((1, 6), ''horizontal''), ((1, 7), ''horizontal'')]"
    unfolding C1_def connection_path_init
    by (simp add: calculate_connection_path_def R end_row_def end_col_def range_py_def)
  have p2: "connection_path C2 =
        [((1, 3), ''horizontal''), ((1, 4), ''horizontal''), ((1, 5), ''horizontal''),
         ((1, 6), ''horizontal''), ((1, 7), ''horizontal''),
         ((2, 6), ''vertical''), ((3, 6), ''vertical''), ((4, 6), ''vertical''),
         ((5, 6), ''corner'')]"
    unfolding C2_def connection_path_init
    by (simp add: calculate_connection_path_def R end_row_def end_col_def range_py_def)
  show ?thesis
    by (simp add: sample R C1 C2 G1 G2 p1 p2)
qed



text \<open>
  Claim C5, as stated, fails on the sample tree that \<open>create_sample_grids\<close> builds (root 0
  at (1, 1), horizontal child 1 at (1, 7), vertical child 2 at (5, 7)): the path of the
  horizontal child holds the cell (1, 3), the parent's last column, and the path of the
  vertical child holds a horizontal run, for instance the cell (1, 4).
\<close>

theorem sample_paths_not_as_claimed:
  "(let (h, root) = create_sample_grids []
    in parent (h ! 1) = Some root \<and> parent (h ! 2) = Some root
       \<and> start_row (h ! 1) = 1 \<and> start_col (h ! 1) = 7
       \<and> start_row (h ! 2) = 5 \<and> start_col (h ! 2) = 7
       \<and> map_of (connection_path (h ! 1)) (1, 3) = Some ''horizontal''
       \<and> map_of (connection_path (h ! 2)) (1, 4) = Some ''horizontal'')"
proof -
  obtain h root where hr: "create_sample_grids [] = (h, root)" by (cases "create_sample_grids []")
  from sample_heap_facts hr have f: "root = 0" "length h = 5"
    "map start_row h = [1, 1, 5, 1, 5]" "map start_col h = [1, 7, 7, 13, 13]"
    "map parent h = [None, Some 0, Some 0, Some 1, Some 1]"
    "connection_path (h ! 1) =
        [((1, 3), ''horizontal''), ((1, 4), ''horizontal''), ((1, 5), ''horizontal''),
         ((1, 6), ''horizontal''), ((1, 7), ''horizontal'')]"
    "connection_path (h ! 2) =
        [((1, 3), ''horizontal''), ((1, 4), ''horizontal''), ((1, 5), ''horizontal''),
         ((1, 6), ''horizontal''), ((1, 7), ''horizontal''),
         ((2, 6), ''vertical''), ((3, 6), ''vertical''), ((4, 6), ''vertical''),
         ((5, 6), ''corner'')]"
    by simp_all
  have n: "\<And>f i. i < 5 \<Longrightarrow> f (h ! i) = map f h ! i" using f(2) by simp
  have "parent (h ! 1) = Some 0" "parent (h ! 2) = Some 0" "start_row (h ! 1) = 1" "start_col (h ! 1) = 7"
       "start_row (h ! 2) = 5" "start_col (h ! 2) = 7"
    by (simp_all add: n f(3,4,5))
  then show ?thesis using hr f(1,6,7) by simp
qed

text \<open>
  Claim C5, amended. In the sample tree (root at (1, 1) with children at (1, 7) and (5, 7),
  the first of which has a child at (1, 13)) the root's last column is 3; the connector path
  of the horizontal child is the cells (1, 3) to (1, 7), all horizontal, with no corner; the
  connector path of the vertical child is the same horizontal run (1, 3) to (1, 7), then
  the rows 2 to 5 of column 6, vertical, the last cell (5, 6) being the corner.
\<close>

theorem sample_paths:
  "(let (h, root) = create_sample_grids []
    in root = 0 \<and> length h = 5
       \<and> start_row (h ! 0) = 1 \<and> start_col (h ! 0) = 1 \<and> end_col (h ! 0) = 3
       \<and> children (h ! 0) = [1, 2] \<and> children (h ! 1) = [3, 4]
       \<and> start_row (h ! 1) = 1 \<and> start_col (h ! 1) = 7
       \<and> start_row (h ! 2) = 5 \<and> start_col (h ! 2) = 7
       \<and> start_row (h ! 3) = 1 \<and> start_col (h ! 3) = 13
       \<and> connection_path (h ! 1) =
            [((1, 3), ''horizontal''), ((1, 4), ''horizontal''), ((1, 5), ''horizontal''),
             ((1, 6), ''horizontal''), ((1, 7), ''horizontal'')]
       \<and> connection_path (h ! 2) =
            [((1, 3), ''horizontal''), ((1, 4), ''horizontal''), ((1, 5), ''horizontal''),
             ((1, 6), ''horizontal''), ((1, 7), ''horizontal''),
             ((2, 6), ''vertical''), ((3, 6), ''vertical''), ((4, 6), ''vertical''),
             ((5, 6), ''corner'')])"
proof -
  obtain h root where hr: "create_sample_grids [] = (h, root)" by (cases "create_sample_grids []")
  from sample_heap_facts hr have f: "root = 0" "length h = 5"
    "map start_row h = [1, 1, 5, 1, 5]" "map start_col h = [1, 7, 7, 13, 13]"
    "map children h = [1, 2] # [3, 4] # [] # [] # [] # []"
    "connection_path (h ! 1) =
        [((1, 3), ''horizontal''), ((1, 4), ''horizontal''), ((1, 5), ''horizontal''),
         ((1, 6), ''horizontal''), ((1, 7), ''horizontal'')]"
    "connection_path (h ! 2) =
        [((1, 3), ''horizontal''), ((1, 4), ''horizontal''), ((1, 5), ''horizontal''),
         ((1, 6), ''horizontal''), ((1, 7), ''horizontal''),
         ((2, 6), ''vertical''), ((3, 6), ''vertical''), ((4, 6), ''vertical''),
         ((5, 6), ''corner'')]"
    by simp_all
  have n: "\<And>f i. i < 5 \<Longrightarrow> f (h ! i) = map f h ! i" using f(2) by simp
  have "start_row (h ! 0) = 1" "start_col (h ! 0) = 1" "children (h ! 0) = [1, 2]"
       "children (h ! 1) = [3, 4]" "start_row (h ! 1) = 1" "start_col (h ! 1) = 7"
       "start_row (h ! 2) = 5" "start_col (h ! 2) = 7" "start_row (h ! 3) = 1" "start_col (h ! 3) = 13"
    by (simp_all add: n f(3,4,5))
  then show ?thesis using hr f(1,2,6,7) by (simp add: end_col_def)
qed

text \<open>
  Claim C6, as stated, fails: \<open>create_child\<close> has no error result and tests no geometry. Two
  horizontal children of the same root are both created and recorded, and they occupy the
  same rectangle, rows 1 to 2 and columns 7 to 9.
\<close>

theorem same_orientation_children_overlap:
  "(let root = DataGrid_init [] 1 1 None \<lparr>fill = Some ''FFA500''\<rparr>;
        (h1, c1) = create_child [root] 0 True;
        (h2, c2) = create_child h1 0 True
    in c1 = 1 \<and> c2 = 2 \<and> length h2 = 3 \<and> children (h2 ! 0) = [1, 2]
       \<and> start_row (h2 ! 1) = 1 \<and> start_col (h2 ! 1) = 7 \<and> end_row (h2 ! 1) = 2 \<and> end_col (h2 ! 1) = 9
       \<and> start_row (h2 ! 2) = 1 \<and> start_col (h2 ! 2) = 7 \<and> end_row (h2 ! 2) = 2 \<and> end_col (h2 ! 2) = 9
       \<and> rect_overlap (h2 ! 1) (h2 ! 2))"
  by (simp add: create_child_def new_DataGrid_def Let_def end_row_def end_col_def rect_overlap_def)

text \<open>
  Claim C6, amended. \<open>create_child\<close> checks no overlap and always succeeds: on every parent
  object of the heap each call allocates a fresh node and appends it to the parent's
  children. The rectangle of the new child never overlaps the parent's rectangle; two
  children of one parent created with the same orientation overlap each other, and both
  are recorded.
\<close>

theorem create_child_always_records:
  assumes "p < length h"
    and "create_child h p hz = (h1, c1)"
    and "create_child h1 p hz = (h2, c2)"
  shows "c1 = length h \<and> c2 = length h + 1 \<and> length h2 = length h + 2
       \<and> children (h2 ! p) = children (h ! p) @ [c1, c2]
       \<and> \<not> rect_overlap (h2 ! c1) (h2 ! p) \<and> \<not> rect_overlap (h2 ! c2) (h2 ! p)
       \<and> rect_overlap (h2 ! c1) (h2 ! c2)"
proof -
  from assms(2) have h1: "h1 = h[p := (h ! p)\<lparr>children := children (h ! p) @ [length h]\<rparr>]
        @ [DataGrid_init h (if hz then start_row (h ! p) else end_row (h ! p) + 3)
             (end_col (h ! p) + 4) (Some p) \<lparr>fill = Some ''0000FF''\<rparr>]" and c1: "c1 = length h"
    unfolding create_child_heap [OF assms(1)] by blast+
  have p1: "p < length h1" using assms(1) h1 by simp
  have hp1: "h1 ! p = (h ! p)\<lparr>children := children (h ! p) @ [length h]\<rparr>"
    using assms(1) h1 by (simp add: nth_append)
  from assms(3) have h2: "h2 = h1[p := (h1 ! p)\<lparr>children := children (h1 ! p) @ [length h1]\<rparr>]
        @ [DataGrid_init h1 (if hz then start_row (h1 ! p) else end_row (h1 ! p) + 3)
             (end_col (h1 ! p) + 4) (Some p) \<lparr>fill = Some ''0000FF''\<rparr>]" and c2: "c2 = length h1"
    unfolding create_child_heap [OF p1] by blast+
  have l1: "length h1 = Suc (length h)" using h1 by simp
  have l2: "length h2 = length h + 2" using h2 l1 by simp
  have e: "end_row (h1 ! p) = end_row (h ! p)" "end_col (h1 ! p) = end_col (h ! p)"
          "start_row (h1 ! p) = start_row (h ! p)"
    by (simp_all add: hp1 end_row_def end_col_def)
  have g1: "h2 ! length h = DataGrid_init h (if hz then start_row (h ! p) else end_row (h ! p) + 3)
             (end_col (h ! p) + 4) (Some p) \<lparr>fill = Some ''0000FF''\<rparr>"
    using l1 assms(1) by (simp add: h2 nth_append) (simp add: h1 nth_append)
  have g2: "h2 ! Suc (length h) = DataGrid_init h1 (if hz then start_row (h ! p) else end_row (h ! p) + 3)
             (end_col (h ! p) + 4) (Some p) \<lparr>fill = Some ''0000FF''\<rparr>"
    using l1 e by (simp add: h2 nth_append)
  have gp: "h2 ! p = (h ! p)\<lparr>children := children (h ! p) @ [length h, Suc (length h)]\<rparr>"
    using p1 l1 by (simp add: h2 nth_append hp1)
  show ?thesis
    unfolding c1 c2 l1 using l2
    by (simp add: g1 g2 gp rect_overlap_def end_row_def end_col_def)
qed

theorem create_child_always_records_witness:
  "(0::nat) < length [DataGrid_init [] 1 1 None \<lparr>fill = None\<rparr>]
   \<and> snd (create_child [DataGrid_init [] 1 1 None \<lparr>fill = None\<rparr>] 0 False) = 1
   \<and> snd (create_child (fst (create_child [DataGrid_init [] 1 1 None \<lparr>fill = None\<rparr>] 0 False)) 0 False) = 2
   \<and> children (fst (create_child (fst (create_child [DataGrid_init [] 1 1 None \<lparr>fill = None\<rparr>] 0 False)) 0 False) ! 0) = [1, 2]
   \<and> rect_overlap
        (fst (create_child (fst (create_child [DataGrid_init [] 1 1 None \<lparr>fill = None\<rparr>] 0 False)) 0 False) ! 1)
        (fst (create_child (fst (create_child [DataGrid_init [] 1 1 None \<lparr>fill = None\<rparr>] 0 False)) 0 False) ! 2)"
proof -
  let ?h = "[DataGrid_init [] 1 1 None \<lparr>fill = None\<rparr>]"
  let ?h1 = "fst (create_child ?h 0 False)"
  let ?h2 = "fst (create_child ?h1 0 False)"
  have l: "0 < length ?h" by simp
  have s1: "snd (create_child ?h 0 False) = 1"
    by (simp add: create_child_def new_DataGrid_def Let_def)
  have s2: "snd (create_child ?h1 0 False) = 2"
    by (simp add: create_child_def new_DataGrid_def Let_def)
  have c1: "create_child ?h 0 False = (?h1, 1)" using s1 by (metis prod.collapse)
  have c2: "create_child ?h1 0 False = (?h2, 2)" using s2 by (metis prod.collapse)
  from create_child_always_records [OF l c1 c2] s1 s2 show ?thesis by simp
qed

section \<open>Properties of the cell labels\<close>








section \<open>The two routers\<close>

text \<open>
  Claim C9. The routers of the two files differ: for a parent at (1, 1) and a child at
  (1, 7), main.py emits the columns 3 to 7 of row 1 and main1.py the columns 4 to 7, so the
  two coordinate sets are not equal.
\<close>

theorem routers_differ:
  "map fst (calculate_connection_path [DataGrid_init [] 1 1 None \<lparr>fill = None\<rparr>]
        (DataGrid_init [DataGrid_init [] 1 1 None \<lparr>fill = None\<rparr>] 1 7 (Some 0) \<lparr>fill = None\<rparr>))
     = [(1, 3), (1, 4), (1, 5), (1, 6), (1, 7)]
   \<and> connection_path1
        [\<lparr>start_row1 = 1, start_col1 = 1, parent1 = None, children1 = None, style1 = \<lparr>fill = None\<rparr>\<rparr>]
        \<lparr>start_row1 = 1, start_col1 = 7, parent1 = Some 0, children1 = None, style1 = \<lparr>fill = None\<rparr>\<rparr>
     = [(1, 4), (1, 5), (1, 6), (1, 7)]
   \<and> set (map fst (calculate_connection_path [DataGrid_init [] 1 1 None \<lparr>fill = None\<rparr>]
        (DataGrid_init [DataGrid_init [] 1 1 None \<lparr>fill = None\<rparr>] 1 7 (Some 0) \<lparr>fill = None\<rparr>)))
     \<noteq> set (connection_path1
        [\<lparr>start_row1 = 1, start_col1 = 1, parent1 = None, children1 = None, style1 = \<lparr>fill = None\<rparr>\<rparr>]
        \<lparr>start_row1 = 1, start_col1 = 7, parent1 = Some 0, children1 = None, style1 = \<lparr>fill = None\<rparr>\<rparr>)"
proof -
  let ?a = "calculate_connection_path [DataGrid_init [] 1 1 None \<lparr>fill = None\<rparr>]
        (DataGrid_init [DataGrid_init [] 1 1 None \<lparr>fill = None\<rparr>] 1 7 (Some 0) \<lparr>fill = None\<rparr>)"
  let ?b = "connection_path1
        [\<lparr>start_row1 = 1, start_col1 = 1, parent1 = None, children1 = None, style1 = \<lparr>fill = None\<rparr>\<rparr>]
        \<lparr>start_row1 = 1, start_col1 = 7, parent1 = Some 0, children1 = None, style1 = \<lparr>fill = None\<rparr>\<rparr>"
  have a: "map fst ?a = [(1, 3), (1, 4), (1, 5), (1, 6), (1, 7)]"
    by (simp add: calculate_connection_path_def range_py_def end_row_def end_col_def Let_def)
  have b: "?b = [(1, 4), (1, 5), (1, 6), (1, 7)]"
    by (simp add: connection_path1_def range1_def range_py_def Let_def)
  have "(1, 3) \<in> set (map fst ?a)" unfolding a by simp
  moreover have "(1, 3) \<notin> set ?b" unfolding b by simp
  ultimately have "set (map fst ?a) \<noteq> set ?b" by blast
  with a b show ?thesis by blast
qed

section \<open>Properties of the traversal\<close>

lemma stack_walk_empty: "stack_walk kids [] visited = Some visited"
  by (subst stack_walk.simps) simp

lemma stack_walk_push:
  "stack_walk kids (stack @ [r]) visited = stack_walk kids (stack @ rev (kids r)) (visited @ [r])"
  by (subst stack_walk.simps) (simp add: Let_def)

lemma stack_walk_forest:
  assumes "\<And>t stack visited. t \<in> set ts \<Longrightarrow>
             stack_walk kids (stack @ [root_of t]) visited = stack_walk kids stack (visited @ preOrder t)"
  shows "stack_walk kids (stack @ rev (map root_of ts)) visited =
           stack_walk kids stack (visited @ concat (map preOrder ts))"
  using assms
proof (induction ts arbitrary: visited)
  case Nil
  then show ?case by simp
next
  case (Cons t ts)
  have "stack_walk kids (stack @ rev (map root_of (t # ts))) visited =
          stack_walk kids ((stack @ rev (map root_of ts)) @ [root_of t]) visited"
    by simp
  also have "\<dots> = stack_walk kids (stack @ rev (map root_of ts)) (visited @ preOrder t)"
    by (rule Cons.prems) simp
  also have "\<dots> = stack_walk kids stack ((visited @ preOrder t) @ concat (map preOrder ts))"
    by (rule Cons.IH) (simp add: Cons.prems)
  finally show ?case by simp
qed

lemma stack_walk_tree:
  "shape kids t \<Longrightarrow>
     stack_walk kids (stack @ [root_of t]) visited = stack_walk kids stack (visited @ preOrder t)"
proof (induction t arbitrary: stack visited)
  case (Node r ts)
  from Node.prems have k: "kids r = map root_of ts" and sh: "\<And>t. t \<in> set ts \<Longrightarrow> shape kids t"
    by (simp_all add: list_all_iff)
  have "stack_walk kids (stack @ [r]) visited =
          stack_walk kids (stack @ rev (map root_of ts)) (visited @ [r])"
    by (simp add: stack_walk_push k)
  also have "\<dots> = stack_walk kids stack ((visited @ [r]) @ concat (map preOrder ts))"
    by (rule stack_walk_forest) (simp add: Node.IH sh)
  finally show ?case by simp
qed

lemma stack_walk_preOrder:
  "shape kids t \<Longrightarrow> stack_walk kids [root_of t] [] = Some (preOrder t)"
  using stack_walk_tree [of kids t "[]" "[]"] by (simp add: stack_walk_empty)

lemma tree_at_shape: "tree_at h t \<Longrightarrow> shape (\<lambda>r. children (h ! r)) t"
  by (induction t) (auto simp: list_all_iff)

lemma tree_at1_shape: "tree_at1 h t \<Longrightarrow> shape (\<lambda>r. children_or_empty (h ! r)) t"
  by (induction t) (auto simp: list_all_iff)

lemma mset_preOrder: "mset (preOrder t) = nodes_mset t"
proof (induction t)
  case (Node r ts)
  have "mset (concat (map preOrder ts)) = sum_list (map nodes_mset ts)"
    using Node.IH by (induction ts) simp_all
  then show ?case by simp
qed

lemma sample_heap1:
  "create_sample_grids1 [] =
     ([\<lparr>start_row1 = 1, start_col1 = 1, parent1 = None, children1 = Some [1, 2],
          style1 = \<lparr>fill = Some ''FFA500''\<rparr>\<rparr>,
       \<lparr>start_row1 = 1, start_col1 = 7, parent1 = Some 0, children1 = Some [3],
          style1 = \<lparr>fill = Some ''FFA500''\<rparr>\<rparr>,
       \<lparr>start_row1 = 5, start_col1 = 7, parent1 = Some 0, children1 = None,
          style1 = \<lparr>fill = Some ''0000FF''\<rparr>\<rparr>,
       \<lparr>start_row1 = 1, start_col1 = 13, parent1 = Some 1, children1 = None,
          style1 = \<lparr>fill = Some ''0000FF''\<rparr>\<rparr>], 0)"
  by (simp add: create_sample_grids1_def Let_def)

text \<open>
  Claim C8. When the objects reachable from the root form a tree, the stack-based walk of
  \<open>generate\<close>, in main.py and in main1.py, ends and emits exactly the recursive pre-order
  of that tree: the root, then each child's whole subtree in insertion order. The emitted
  sequence holds every node of the tree exactly once.
\<close>

theorem generate_visits_in_preorder:
  assumes "tree_at h t" and "tree_at1 h1 t1"
  shows "generate_order h (root_of t) = Some (preOrder t)
       \<and> map_option mset (generate_order h (root_of t)) = Some (nodes_mset t)
       \<and> generate_order1 h1 (root_of t1) = Some (preOrder t1)
       \<and> map_option mset (generate_order1 h1 (root_of t1)) = Some (nodes_mset t1)"
  using stack_walk_preOrder [OF tree_at_shape [OF assms(1)]]
        stack_walk_preOrder [OF tree_at1_shape [OF assms(2)]]
  by (simp add: generate_order_def generate_order1_def mset_preOrder)

theorem generate_visits_in_preorder_witness:
  "tree_at (fst (create_sample_grids [])) (Node 0 [Node 1 [Node 3 [], Node 4 []], Node 2 []])
   \<and> tree_at1 (fst (create_sample_grids1 [])) (Node 0 [Node 1 [Node 3 []], Node 2 []])
   \<and> generate_order (fst (create_sample_grids [])) 0 = Some [0, 1, 3, 4, 2]
   \<and> generate_order1 (fst (create_sample_grids1 [])) 0 = Some [0, 1, 3, 2]"
proof -
  let ?h = "fst (create_sample_grids [])"
  let ?h1 = "fst (create_sample_grids1 [])"
  from sample_heap_facts have l: "length ?h = 5"
    and c: "map children ?h = [1, 2] # [3, 4] # [] # [] # [] # []" by simp_all
  have k0: "children (?h ! 0) = [1, 2]" using nth_map [of 0 ?h children] l by (simp add: c)
  have k1: "children (?h ! 1) = [3, 4]" using nth_map [of 1 ?h children] l by (simp add: c)
  have k2: "children (?h ! 2) = []" using nth_map [of 2 ?h children] l by (simp add: c)
  have k3: "children (?h ! 3) = []" using nth_map [of 3 ?h children] l by (simp add: c)
  have k4: "children (?h ! 4) = []" using nth_map [of 4 ?h children] l by (simp add: c)
  have t: "tree_at ?h (Node 0 [Node 1 [Node 3 [], Node 4 []], Node 2 []])"
    using k0 k1 k2 k3 k4 by (simp add: l)
  have t1: "tree_at1 ?h1 (Node 0 [Node 1 [Node 3 []], Node 2 []])"
    by (simp add: sample_heap1 children_or_empty_def)
  from generate_visits_in_preorder [OF t t1] t t1 show ?thesis by simp
qed

end
